theory Spec2Isabelle
  imports Complex_Main "HOL-Library.Log_Nat"
begin

section \<open>Python values used by the loop nodes\<close>

text \<open>
  The nodes of \<^verbatim>\<open>nodes.py\<close> exchange Python dictionaries. A loop signal is a dictionary
  with the keys \<^verbatim>\<open>loop_id\<close>, \<^verbatim>\<open>current_index\<close>, \<^verbatim>\<open>start_index\<close>,
  \<^verbatim>\<open>max_iterations\<close> and \<^verbatim>\<open>is_active\<close>; a persisted state is a dictionary with the
  keys \<^verbatim>\<open>current_index\<close>, \<^verbatim>\<open>start_index\<close> and \<^verbatim>\<open>max_iterations\<close>. The host's
  schema gives every key one type (INT, STRING, BOOLEAN), so a dictionary is a record whose
  fields are options: \<open>None\<close> is an absent key. Python integers are unbounded: \<open>int\<close>.
\<close>

record loop_signal =
  sig_loop_id :: "string option"
  sig_current_index :: "int option"
  sig_start_index :: "int option"
  sig_max_iterations :: "int option"
  sig_is_active :: "bool option"

record loop_state =
  st_current_index :: "int option"
  st_start_index :: "int option"
  st_max_iterations :: "int option"

text \<open>\<^verbatim>\<open>d.get(key, default)\<close>: the value under the key, the default when the key is absent.\<close>

definition dict_get :: "'a option \<Rightarrow> 'a \<Rightarrow> 'a" where
  "dict_get v d = (case v of None \<Rightarrow> d | Some x \<Rightarrow> x)"

datatype py_error = ZeroDivisionError | OverflowError

section \<open>True division of integers\<close>

text \<open>
  \<^verbatim>\<open>a / b\<close> on Python integers raises ZeroDivisionError when \<^verbatim>\<open>b\<close> is zero, and
  otherwise returns the IEEE 754 binary64 number nearest to the exact quotient (ties to the
  even significand), or raises OverflowError when that number is out of range. A float is
  represented by the rational number it denotes.
\<close>

definition round_half_even :: "rat \<Rightarrow> int" where
  "round_half_even x =
     (let f = \<lfloor>x\<rfloor>; d = x - of_int f
      in if d < 1 / 2 then f
         else if 1 / 2 < d then f + 1
         else if even f then f else f + 1)"

text \<open>The exponent of a non-zero rational: the \<open>e\<close> with \<open>2 ^ e \<le> \<bar>x\<bar> < 2 ^ (e + 1)\<close>.\<close>

definition ilog2 :: "rat \<Rightarrow> int" where
  "ilog2 x =
     (let (a, b) = quotient_of \<bar>x\<bar>; d = bitlen a - bitlen b
      in if power_int 2 d \<le> \<bar>x\<bar> then d else d - 1)"

text \<open>
  Binary64 numbers with exponent \<open>e\<close> are the integer multiples of \<open>2 ^ (e - 52)\<close>;
  below the smallest normal exponent \<open>- 1022\<close> the spacing stays that of the subnormals.
\<close>

definition double_exponent :: "rat \<Rightarrow> int" where
  "double_exponent x = max (- 1022) (ilog2 x)"

definition round_to_grid :: "int \<Rightarrow> rat \<Rightarrow> rat" where
  "round_to_grid e x = of_int (round_half_even (x * power_int 2 (52 - e))) * power_int 2 (e - 52)"

definition double_nearest :: "rat \<Rightarrow> rat" where
  "double_nearest x = round_to_grid (double_exponent x) x"

definition double_of_rat :: "rat \<Rightarrow> py_error + rat" where
  "double_of_rat x =
     (let r = double_nearest x
      in if \<bar>r\<bar> < 2 ^ 1024 then Inr r else Inl OverflowError)"

definition py_truediv :: "int \<Rightarrow> int \<Rightarrow> py_error + rat" where
  "py_truediv a b =
     (if b = 0 then Inl ZeroDivisionError else double_of_rat (of_int a / of_int b))"

section \<open>The process-wide loop state\<close>

text \<open>
  \<^verbatim>\<open>_loop_state\<close> is a module-level dictionary from loop identifiers to persisted states.
  Every function that reads or writes it takes the dictionary and returns the new one.
\<close>

type_synonym loop_states = "string \<rightharpoonup> loop_state"

definition get_loop_state :: "loop_states \<Rightarrow> string \<Rightarrow> loop_state option" where
  "get_loop_state states loop_id = states loop_id"

definition set_loop_state :: "loop_states \<Rightarrow> string \<Rightarrow> loop_state \<Rightarrow> loop_states" where
  "set_loop_state states loop_id state = states(loop_id \<mapsto> state)"

text \<open>The argument is \<open>None\<close> for Python's \<^verbatim>\<open>None\<close>, which clears every slot.\<close>

definition clear_loop_state :: "loop_states \<Rightarrow> string option \<Rightarrow> loop_states" where
  "clear_loop_state states loop_id =
     (case loop_id of
        None \<Rightarrow> Map.empty
      | Some l \<Rightarrow> (case states l of None \<Rightarrow> states | Some _ \<Rightarrow> states(l := None)))"

section \<open>Manual-mode nodes\<close>

text \<open>
  Every \<^verbatim>\<open>execute\<close> method returns a tuple, in the order of its \<^verbatim>\<open>RETURN_NAMES\<close>.
  \<^verbatim>\<open>_cleanup_memory\<close> only calls the host's memory management and the garbage collector;
  it reads and writes nothing of the loop, and is not part of the model.
\<close>

definition LoopStart_execute ::
  "int \<Rightarrow> int \<Rightarrow> loop_signal option \<Rightarrow> int \<times> int \<times> int \<times> loop_signal" where
  "LoopStart_execute start_index max_iterations loop_signal =
     (let current_index =
            (case loop_signal of
               None \<Rightarrow> start_index
             | Some s \<Rightarrow> dict_get (sig_current_index s) start_index);
          signal = \<lparr>sig_loop_id = None,
                    sig_current_index = Some current_index,
                    sig_start_index = Some start_index,
                    sig_max_iterations = Some max_iterations,
                    sig_is_active = Some (current_index < start_index + max_iterations)\<rparr>
      in (current_index, start_index, max_iterations, signal))"

definition LoopEnd_execute :: "loop_signal \<Rightarrow> 'a \<Rightarrow> loop_signal \<times> 'a \<times> bool" where
  "LoopEnd_execute loop_signal passthrough =
     (let current_index = dict_get (sig_current_index loop_signal) 0;
          start_index = dict_get (sig_start_index loop_signal) 0;
          max_iterations = dict_get (sig_max_iterations loop_signal) 1;
          next_index = current_index + 1;
          end_index = start_index + max_iterations;
          continue_loop = (next_index < end_index);
          new_signal = \<lparr>sig_loop_id = None,
                        sig_current_index = Some next_index,
                        sig_start_index = Some start_index,
                        sig_max_iterations = Some max_iterations,
                        sig_is_active = Some continue_loop\<rparr>
      in (new_signal, passthrough, continue_loop))"

definition LoopCondition_execute :: "loop_signal \<Rightarrow> bool \<times> int \<times> int" where
  "LoopCondition_execute loop_signal =
     (let current_index = dict_get (sig_current_index loop_signal) 0;
          start_index = dict_get (sig_start_index loop_signal) 0;
          max_iterations = dict_get (sig_max_iterations loop_signal) 1;
          end_index = start_index + max_iterations;
          should_continue = (current_index < end_index);
          remaining = max 0 (end_index - current_index - 1)
      in (should_continue, current_index, remaining))"

definition LoopIndex_execute ::
  "loop_signal \<Rightarrow> py_error + (int \<times> int \<times> int \<times> int \<times> rat)" where
  "LoopIndex_execute loop_signal =
     (let current_index = dict_get (sig_current_index loop_signal) 0;
          start_index = dict_get (sig_start_index loop_signal) 0;
          max_iterations = dict_get (sig_max_iterations loop_signal) 1;
          iteration = current_index - start_index;
          remaining = max 0 (max_iterations - iteration - 1)
      in case (if max_iterations > 0 then py_truediv (iteration + 1) max_iterations
               else Inr 1) of
           Inl err \<Rightarrow> Inl err
         | Inr progress \<Rightarrow>
             Inr (current_index, iteration, max_iterations, remaining, progress))"

definition IntIterator_execute :: "int \<Rightarrow> int \<Rightarrow> int \<Rightarrow> int \<Rightarrow> int \<times> int \<times> bool" where
  "IntIterator_execute start end step current_iteration =
     (let val = start + current_iteration * step;
          has_more = (if step > 0 then val + step \<le> end else val + step \<ge> end)
      in (val, current_iteration, has_more))"

section \<open>Auto-mode nodes\<close>

text \<open>
  \<^verbatim>\<open>AutoLoopStart.execute\<close> stores the fresh state before it computes the progress, so
  the returned dictionary holds the fresh state also when the division raises.
\<close>

definition AutoLoopStart_execute ::
  "loop_states \<Rightarrow> string \<Rightarrow> int \<Rightarrow> int \<Rightarrow> bool \<Rightarrow>
     loop_states \<times> (py_error + (int \<times> int \<times> int \<times> rat \<times> bool \<times> loop_signal))" where
  "AutoLoopStart_execute states loop_id start_index max_iterations reset =
     (let state = get_loop_state states loop_id;
          fresh = (state = None \<or> reset);
          current_index =
            (case state of
               None \<Rightarrow> start_index
             | Some st \<Rightarrow>
                 if reset then start_index
                 else dict_get (st_current_index st) start_index);
          states' =
            (if fresh
             then set_loop_state states loop_id
                    \<lparr>st_current_index = Some current_index,
                     st_start_index = Some start_index,
                     st_max_iterations = Some max_iterations\<rparr>
             else states);
          iteration = current_index - start_index;
          end_index = start_index + max_iterations;
          remaining = max 0 (end_index - current_index - 1);
          is_last = (current_index \<ge> end_index - 1);
          signal = \<lparr>sig_loop_id = Some loop_id,
                    sig_current_index = Some current_index,
                    sig_start_index = Some start_index,
                    sig_max_iterations = Some max_iterations,
                    sig_is_active = Some (current_index < end_index)\<rparr>
      in (states',
          case (if max_iterations > 0 then py_truediv (iteration + 1) max_iterations
                else Inr 1) of
            Inl err \<Rightarrow> Inl err
          | Inr progress \<Rightarrow>
              Inr (current_index, iteration, remaining, progress, is_last, signal)))"

definition AutoLoopEnd_execute ::
  "loop_states \<Rightarrow> loop_signal \<Rightarrow> 'a \<Rightarrow> loop_states \<times> ('a \<times> bool \<times> int)" where
  "AutoLoopEnd_execute states loop_signal passthrough =
     (let loop_id = dict_get (sig_loop_id loop_signal) ''default'';
          current_index = dict_get (sig_current_index loop_signal) 0;
          start_index = dict_get (sig_start_index loop_signal) 0;
          max_iterations = dict_get (sig_max_iterations loop_signal) 1;
          next_index = current_index + 1;
          end_index = start_index + max_iterations;
          should_continue = (next_index < end_index);
          state = \<lparr>st_current_index = Some next_index,
                   st_start_index = Some start_index,
                   st_max_iterations = Some max_iterations\<rparr>;
          states1 = set_loop_state states loop_id state;
          states2 = (if \<not> should_continue then clear_loop_state states1 (Some loop_id)
                     else states1)
      in (states2, (passthrough, should_continue, next_index)))"

definition LoopBreak_execute ::
  "loop_states \<Rightarrow> loop_signal \<Rightarrow> bool \<Rightarrow> 'a \<Rightarrow> loop_states \<times> ('a \<times> bool)" where
  "LoopBreak_execute states loop_signal break_condition passthrough =
     (let states' =
            (if break_condition
             then clear_loop_state states
                    (Some (dict_get (sig_loop_id loop_signal) ''default''))
             else states)
      in (states', (passthrough, break_condition)))"

definition LoopReset_execute :: "loop_states \<Rightarrow> string \<Rightarrow> 'a \<Rightarrow> loop_states \<times> 'a" where
  "LoopReset_execute states loop_id trigger = (clear_loop_state states (Some loop_id), trigger)"

section \<open>Chains of nodes\<close>

text \<open>
  The signal after \<open>k\<close> further Loop End nodes, each fed the signal returned by the one
  before it.
\<close>

fun advance :: "nat \<Rightarrow> loop_signal \<Rightarrow> loop_signal" where
  "advance 0 s = s"
| "advance (Suc k) s = advance k (fst (LoopEnd_execute s ()))"

text \<open>
  One evaluation of a graph in auto mode: Auto Loop Start, then Auto Loop End fed the signal
  that Auto Loop Start returned. The result keeps the index Start returned and the
  \<^verbatim>\<open>should_continue\<close> and \<^verbatim>\<open>next_index\<close> outputs of End.
\<close>

definition auto_iteration ::
  "loop_states \<Rightarrow> string \<Rightarrow> int \<Rightarrow> int \<Rightarrow> loop_states \<times> (py_error + (int \<times> bool \<times> int))" where
  "auto_iteration states loop_id start_index max_iterations =
     (case AutoLoopStart_execute states loop_id start_index max_iterations False of
        (states', Inl err) \<Rightarrow> (states', Inl err)
      | (states', Inr (current_index, iteration, remaining, progress, is_last, signal)) \<Rightarrow>
          (case AutoLoopEnd_execute states' signal () of
             (states'', (passthrough, should_continue, next_index)) \<Rightarrow>
               (states'', Inr (current_index, should_continue, next_index))))"

text \<open>
  The signal in which every absent index field is present with the value 0 and an absent
  iteration count is present with the value 1.
\<close>

definition with_defaults :: "loop_signal \<Rightarrow> loop_signal" where
  "with_defaults s =
     s\<lparr>sig_current_index := Some (case sig_current_index s of None \<Rightarrow> 0 | Some i \<Rightarrow> i),
       sig_start_index := Some (case sig_start_index s of None \<Rightarrow> 0 | Some i \<Rightarrow> i),
       sig_max_iterations := Some (case sig_max_iterations s of None \<Rightarrow> 1 | Some n \<Rightarrow> n)\<rparr>"

section \<open>Rounding to the nearest binary64 number\<close>

lemma round_half_even_of_int: "round_half_even (of_int n) = n"
  by (simp add: round_half_even_def)

lemma round_half_even_bounds:
  "\<lfloor>x\<rfloor> \<le> round_half_even x \<and> round_half_even x \<le> \<lfloor>x\<rfloor> + 1"
  by (simp add: round_half_even_def Let_def)

lemma round_half_even_mono:
  assumes "x \<le> y"
  shows "round_half_even x \<le> round_half_even y"
proof (cases "\<lfloor>x\<rfloor> < \<lfloor>y\<rfloor>")
  case True
  then show ?thesis
    using round_half_even_bounds [of x] round_half_even_bounds [of y] by linarith
next
  case False
  with floor_mono [OF assms] have "\<lfloor>x\<rfloor> = \<lfloor>y\<rfloor>" by simp
  with assms show ?thesis
    by (auto simp: round_half_even_def Let_def)
qed

lemma round_half_even_minus: "round_half_even (- x) = - round_half_even x"
proof (cases "x = of_int \<lfloor>x\<rfloor>")
  case True
  then obtain n where "x = of_int n" ..
  then have "- x = of_int (- n)" by simp
  then show ?thesis using \<open>x = of_int n\<close> round_half_even_of_int by metis
next
  case False
  then have c: "\<lceil>x\<rceil> = \<lfloor>x\<rfloor> + 1" by (simp add: ceiling_altdef)
  have f: "\<lfloor>- x\<rfloor> = - \<lfloor>x\<rfloor> - 1" using c by (simp add: ceiling_def)
  have lt: "of_int \<lfloor>x\<rfloor> < x" using False by (metis floor_less_iff less_le of_int_floor_le order_refl)
  show ?thesis
    unfolding round_half_even_def Let_def f using lt
    by (auto simp: algebra_simps)
qed

lemma two_powi_pos: "(0::rat) < 2 powi k"
  by (simp add: zero_less_power_int)

lemma two_powi_cancel: "(2::rat) powi (52 - e) * 2 powi (e - 52) = 1"
proof -
  have "(2::rat) powi ((52 - e) + (e - 52)) = 2 powi (52 - e) * 2 powi (e - 52)"
    by (rule power_int_add) simp
  then show ?thesis by simp
qed

lemma ilog2_bounds:
  assumes "x \<noteq> 0"
  shows "2 powi (ilog2 x) \<le> \<bar>x\<bar> \<and> \<bar>x\<bar> < 2 powi (ilog2 x + 1)"
proof -
  obtain a b where q: "quotient_of \<bar>x\<bar> = (a, b)" by (cases "quotient_of \<bar>x\<bar>")
  have b: "0 < b" using q by (rule quotient_of_denom_pos)
  have x: "\<bar>x\<bar> = of_int a / of_int b" using q by (rule quotient_of_div)
  have "0 < \<bar>x\<bar>" using assms by simp
  with x b have a: "0 < a" by (simp add: zero_less_divide_iff)
  define la lb where "la = bitlen a" and "lb = bitlen b"
  have la: "2 ^ nat (la - 1) \<le> a" "a < 2 ^ nat la" and la1: "1 \<le> la"
    using bitlen_bounds [OF a] a by (auto simp: la_def bitlen_alt_def)
  have lb: "2 ^ nat (lb - 1) \<le> b" "b < 2 ^ nat lb" and lb1: "1 \<le> lb"
    using bitlen_bounds [OF b] b by (auto simp: lb_def bitlen_alt_def)
  have pw: "(2::rat) powi k = of_int (2 ^ nat k)" if "0 \<le> k" for k
    using that by (simp add: power_int_def)
  have pa: "(2::rat) powi (la - 1) \<le> of_int a" "of_int a < (2::rat) powi la"
    using la la1 unfolding pw [of "la - 1", OF diff_ge_0_iff_ge [THEN iffD2, OF la1]]
      pw [of la, OF order_trans [OF zero_le_one la1]]
    by (simp_all only: of_int_le_iff of_int_less_iff)
  have pb: "(2::rat) powi (lb - 1) \<le> of_int b" "of_int b < (2::rat) powi lb"
    using lb lb1 unfolding pw [of "lb - 1", OF diff_ge_0_iff_ge [THEN iffD2, OF lb1]]
      pw [of lb, OF order_trans [OF zero_le_one lb1]]
    by (simp_all only: of_int_le_iff of_int_less_iff)
  have ra: "0 < (of_int a :: rat)" and rb: "0 < (of_int b :: rat)" using a b by simp_all
  have up: "\<bar>x\<bar> < 2 powi (la - lb + 1)"
  proof -
    have "of_int a / of_int b < (2::rat) powi la / 2 powi (lb - 1)"
      by (rule frac_less [OF less_imp_le [OF ra] pa(2) two_powi_pos pb(1)])
    also have "\<dots> = 2 powi (la - (lb - 1))" by (rule power_int_diff [symmetric]) simp
    finally show ?thesis by (simp add: x algebra_simps)
  qed
  have lo: "2 powi (la - lb - 1) \<le> \<bar>x\<bar>"
  proof -
    have "(2::rat) powi (la - 1) / 2 powi lb \<le> of_int a / of_int b"
      by (rule frac_le [OF less_imp_le [OF ra] pa(1) rb less_imp_le [OF pb(2)]])
    moreover have "(2::rat) powi (la - 1) / 2 powi lb = 2 powi ((la - 1) - lb)"
      by (rule power_int_diff [symmetric]) simp
    ultimately show ?thesis by (simp add: x algebra_simps)
  qed
  show ?thesis
    using up lo q by (auto simp: ilog2_def la_def lb_def Let_def)
qed

lemma round_to_grid_le:
  assumes "x \<le> of_int n * 2 powi (e - 52)"
  shows "round_to_grid e x \<le> of_int n * 2 powi (e - 52)"
proof -
  have "x * 2 powi (52 - e) \<le> (of_int n * 2 powi (e - 52)) * 2 powi (52 - e)"
    using assms two_powi_pos [of "52 - e"] by (simp only: mult_le_cancel_right_pos)
  also have "\<dots> = of_int n"
    using two_powi_cancel [of e] by (simp add: mult.assoc mult.commute)
  finally have "round_half_even (x * 2 powi (52 - e)) \<le> n"
    using round_half_even_mono round_half_even_of_int by metis
  then have "(of_int (round_half_even (x * 2 powi (52 - e))) :: rat) \<le> of_int n"
    by simp
  then show ?thesis
    unfolding round_to_grid_def using two_powi_pos [of "e - 52"]
    by (simp only: mult_le_cancel_right_pos)
qed

lemma round_to_grid_ge:
  assumes "of_int n * 2 powi (e - 52) \<le> x"
  shows "of_int n * 2 powi (e - 52) \<le> round_to_grid e x"
proof -
  have "(of_int n * 2 powi (e - 52)) * 2 powi (52 - e) \<le> x * 2 powi (52 - e)"
    using assms two_powi_pos [of "52 - e"] by (simp only: mult_le_cancel_right_pos)
  moreover have "(of_int n * 2 powi (e - 52)) * 2 powi (52 - e) = (of_int n :: rat)"
    using two_powi_cancel [of e] by (simp add: mult.assoc mult.commute)
  ultimately have "of_int n \<le> x * 2 powi (52 - e)" by simp
  then have "n \<le> round_half_even (x * 2 powi (52 - e))"
    using round_half_even_mono round_half_even_of_int by metis
  then have "(of_int n :: rat) \<le> of_int (round_half_even (x * 2 powi (52 - e)))"
    by simp
  then show ?thesis
    unfolding round_to_grid_def using two_powi_pos [of "e - 52"]
    by (simp only: mult_le_cancel_right_pos)
qed

lemma round_to_grid_mono: "x \<le> y \<Longrightarrow> round_to_grid e x \<le> round_to_grid e y"
  unfolding round_to_grid_def
  using two_powi_pos [of "e - 52"] two_powi_pos [of "52 - e"]
  by (simp add: round_half_even_mono mult_le_cancel_right_pos)

lemma two_powi_on_grid:
  assumes "e - 52 \<le> k"
  shows "(2::rat) powi k = of_int (2 ^ nat (k - (e - 52))) * 2 powi (e - 52)"
proof -
  have "(2::rat) powi ((k - (e - 52)) + (e - 52)) = 2 powi (k - (e - 52)) * 2 powi (e - 52)"
    by (rule power_int_add) simp
  moreover have "(2::rat) powi (k - (e - 52)) = of_int (2 ^ nat (k - (e - 52)))"
    using assms by (simp add: power_int_def)
  ultimately show ?thesis by simp
qed

lemma round_to_grid_le_powi:
  assumes "x \<le> 2 powi k" "e - 52 \<le> k"
  shows "round_to_grid e x \<le> 2 powi k"
  using round_to_grid_le [of x "2 ^ nat (k - (e - 52))" e] assms(1)
  unfolding two_powi_on_grid [OF assms(2), symmetric] .

lemma round_to_grid_ge_powi:
  assumes "2 powi k \<le> x" "e - 52 \<le> k"
  shows "2 powi k \<le> round_to_grid e x"
  using round_to_grid_ge [of "2 ^ nat (k - (e - 52))" e x] assms(1)
  unfolding two_powi_on_grid [OF assms(2), symmetric] .

lemma round_to_grid_nonneg: "0 \<le> x \<Longrightarrow> 0 \<le> round_to_grid e x"
  using round_to_grid_ge [of 0 e x] by simp

lemma round_to_grid_nonpos: "x \<le> 0 \<Longrightarrow> round_to_grid e x \<le> 0"
  using round_to_grid_le [of x 0 e] by simp

lemma round_to_grid_minus: "round_to_grid e (- x) = - round_to_grid e x"
  by (simp add: round_to_grid_def round_half_even_minus)

lemma double_exponent_minus: "double_exponent (- x) = double_exponent x"
  by (simp add: double_exponent_def ilog2_def)

lemma double_nearest_minus: "double_nearest (- x) = - double_nearest x"
  by (simp add: double_nearest_def round_to_grid_minus double_exponent_minus)

lemma double_nearest_zero: "double_nearest 0 = 0"
  by (simp add: double_nearest_def round_to_grid_def round_half_even_def)

lemma ilog2_mono:
  assumes "0 < x" "x \<le> y"
  shows "ilog2 x \<le> ilog2 y"
proof -
  have "2 powi (ilog2 x) \<le> x" using ilog2_bounds [of x] assms by simp
  also have "x \<le> y" by fact
  also have "y < 2 powi (ilog2 y + 1)" using ilog2_bounds [of y] assms by simp
  finally have "(2::rat) powi (ilog2 x) < 2 powi (ilog2 y + 1)" .
  then have "ilog2 x < ilog2 y + 1"
    by (metis not_le power_int_increasing one_le_numeral)
  then show ?thesis by simp
qed

lemma double_nearest_mono_pos:
  assumes "0 < x" "x \<le> y"
  shows "double_nearest x \<le> double_nearest y"
proof -
  define ex ey where "ex = double_exponent x" and "ey = double_exponent y"
  have y: "0 < y" using assms by simp
  have le: "ex \<le> ey"
    using ilog2_mono [OF assms] by (simp add: ex_def ey_def double_exponent_def)
  show ?thesis
  proof (cases "ex = ey")
    case True
    then show ?thesis
      using round_to_grid_mono [OF assms(2), of ex]
      by (simp add: double_nearest_def ex_def ey_def)
  next
    case False
    with le have lt: "ex < ey" by simp
    have "ilog2 x \<le> ex" by (simp add: ex_def double_exponent_def)
    then have "(2::rat) powi (ilog2 x + 1) \<le> 2 powi (ex + 1)"
      by (intro power_int_increasing) simp_all
    moreover have "x < 2 powi (ilog2 x + 1)" using ilog2_bounds [of x] assms by simp
    ultimately have "x \<le> 2 powi (ex + 1)" by simp
    then have ux: "round_to_grid ex x \<le> 2 powi (ex + 1)"
      by (rule round_to_grid_le_powi) simp
    have "ey = ilog2 y"
      using lt by (simp add: ex_def ey_def double_exponent_def max_def split: if_splits)
    then have "2 powi ey \<le> y" using ilog2_bounds [of y] y by simp
    then have ly: "2 powi ey \<le> round_to_grid ey y"
      by (rule round_to_grid_ge_powi) simp
    have "(2::rat) powi (ex + 1) \<le> 2 powi ey"
      using lt by (intro power_int_increasing) simp_all
    with ux ly show ?thesis
      by (simp add: double_nearest_def ex_def ey_def)
  qed
qed

lemma double_nearest_nonneg: "0 \<le> x \<Longrightarrow> 0 \<le> double_nearest x"
  by (simp add: double_nearest_def round_to_grid_nonneg)

lemma double_nearest_mono:
  assumes "x \<le> y"
  shows "double_nearest x \<le> double_nearest y"
proof -
  consider "0 < x" | "x \<le> 0" "0 \<le> y" | "y < 0" by linarith
  then show ?thesis
  proof cases
    case 1
    then show ?thesis using assms by (rule double_nearest_mono_pos)
  next
    case 2
    have "double_nearest x \<le> 0"
      using double_nearest_nonneg [of "- x"] 2(1) by (simp add: double_nearest_minus)
    also have "0 \<le> double_nearest y" using 2(2) by (rule double_nearest_nonneg)
    finally show ?thesis .
  next
    case 3
    then have "0 < - y" "- y \<le> - x" using assms by simp_all
    then have "double_nearest (- y) \<le> double_nearest (- x)"
      by (rule double_nearest_mono_pos)
    then show ?thesis by (simp add: double_nearest_minus)
  qed
qed

lemma double_nearest_one: "double_nearest 1 = 1"
  by (simp add: double_nearest_def double_exponent_def round_to_grid_def ilog2_def
      round_half_even_def Let_def)

lemma double_nearest_bound:
  assumes "\<bar>x\<bar> < 2 powi 1023"
  shows "\<bar>double_nearest x\<bar> \<le> 2 powi 1023"
proof -
  have pos: "double_nearest z \<le> 2 powi 1023" if "0 \<le> z" "z < 2 powi 1023" for z
  proof (cases "z = 0")
    case True
    then show ?thesis using two_powi_pos [of 1023] by (simp add: double_nearest_zero)
  next
    case False
    then have "2 powi (ilog2 z) \<le> z" using ilog2_bounds [of z] that by simp
    with that have "(2::rat) powi (ilog2 z) < 2 powi 1023" by simp
    then have "ilog2 z < 1023"
      by (metis not_le power_int_increasing one_le_numeral)
    then have "double_exponent z - 52 \<le> 1023" by (simp add: double_exponent_def)
    with that show ?thesis
      unfolding double_nearest_def by (intro round_to_grid_le_powi) simp_all
  qed
  show ?thesis
  proof (cases "0 \<le> x")
    case True
    then show ?thesis
      using pos [of x] assms double_nearest_nonneg [of x] by simp
  next
    case False
    then have "0 \<le> - x" "- x < 2 powi 1023" using assms by simp_all
    then have "double_nearest (- x) \<le> 2 powi 1023" by (rule pos)
    moreover have "0 \<le> double_nearest (- x)" using False by (simp add: double_nearest_nonneg)
    ultimately show ?thesis by (simp add: double_nearest_minus)
  qed
qed

lemma py_truediv_returns:
  assumes "b \<noteq> 0" "\<bar>a\<bar> < 2 ^ 1023"
  shows "py_truediv a b = Inr (double_nearest (of_int a / of_int b))"
proof -
  have "\<bar>of_int a / of_int b :: rat\<bar> \<le> \<bar>of_int a\<bar>"
  proof -
    have "1 \<le> \<bar>of_int b :: rat\<bar>" using assms(1) by (simp flip: of_int_abs)
    then have "\<bar>of_int a :: rat\<bar> / \<bar>of_int b\<bar> \<le> \<bar>of_int a\<bar> / 1"
      by (intro divide_left_mono) simp_all
    then show ?thesis by simp
  qed
  also have "\<bar>of_int a :: rat\<bar> < 2 powi 1023"
  proof -
    have "(of_int \<bar>a\<bar> :: rat) < of_int (2 ^ 1023)" using assms(2) by (simp only: of_int_less_iff)
    then show ?thesis by simp
  qed
  finally have "\<bar>double_nearest (of_int a / of_int b)\<bar> \<le> 2 powi 1023"
    by (rule double_nearest_bound)
  also have "(2::rat) powi 1023 < 2 ^ 1024" by simp
  finally show ?thesis using assms(1) by (simp add: py_truediv_def double_of_rat_def)
qed

lemma double_of_rat_Inr: "double_of_rat x = Inr r \<Longrightarrow> r = double_nearest x"
  by (simp add: double_of_rat_def Let_def split: if_splits)

lemma py_truediv_Inr:
  "py_truediv a b = Inr r \<Longrightarrow> b \<noteq> 0 \<and> r = double_nearest (of_int a / of_int b)"
  by (auto simp: py_truediv_def dest: double_of_rat_Inr split: if_splits)

section \<open>Chains of Loop End nodes\<close>

lemma advance_complete:
  "advance k \<lparr>sig_loop_id = None, sig_current_index = Some c, sig_start_index = Some a,
              sig_max_iterations = Some m, sig_is_active = Some b\<rparr> =
   \<lparr>sig_loop_id = None, sig_current_index = Some (c + int k), sig_start_index = Some a,
    sig_max_iterations = Some m,
    sig_is_active = Some (if k = 0 then b else c + int k < a + m)\<rparr>"
proof (induction k arbitrary: c b)
  case 0
  show ?case by simp
next
  case (Suc k)
  show ?case
    by (simp add: LoopEnd_execute_def dict_get_def Let_def Suc.IH add.assoc)
qed

section \<open>Integer Iterator\<close>

text \<open>
  C9. With start 0, end 10 and step 2, the Integer Iterator returns value 6 and has_more
  true at iteration 3, value 8 and has_more true at iteration 4, value 10 and has_more
  false at iteration 5.
\<close>

theorem IntIterator_scenario:
  "IntIterator_execute 0 10 2 3 = (6, 3, True) \<and>
   IntIterator_execute 0 10 2 4 = (8, 4, True) \<and>
   IntIterator_execute 0 10 2 5 = (10, 5, False)"
  by (simp add: IntIterator_execute_def)

section \<open>The scenario with three iterations\<close>

text \<open>
  C2. With start_index 0 and max_iterations 3, three Loop End nodes, each fed the signal of
  the one before, move current_index 0 to 1, 1 to 2 and 2 to 3 and return continue_loop true,
  true, false. In auto mode three evaluations under the loop identifier \<open>loop_1\<close> return
  should_continue true, true, false with next_index 1, 2, 3, and after the third the state
  dictionary has no slot for \<open>loop_1\<close> (it is empty).
\<close>

theorem three_iterations_scenario:
  "(let (c0, a0, m0, s0) = LoopStart_execute 0 3 None;
        (s1, p1, k1) = LoopEnd_execute s0 ();
        (s2, p2, k2) = LoopEnd_execute s1 ();
        (s3, p3, k3) = LoopEnd_execute s2 ()
    in [(sig_current_index s0, sig_current_index s1, k1),
        (sig_current_index s1, sig_current_index s2, k2),
        (sig_current_index s2, sig_current_index s3, k3)]) =
     [(Some 0, Some 1, True), (Some 1, Some 2, True), (Some 2, Some 3, False)] \<and>
   auto_iteration Map.empty ''loop_1'' 0 3 =
     ([''loop_1'' \<mapsto> \<lparr>st_current_index = Some 1, st_start_index = Some 0,
                       st_max_iterations = Some 3\<rparr>], Inr (0, True, 1)) \<and>
   auto_iteration [''loop_1'' \<mapsto> \<lparr>st_current_index = Some 1, st_start_index = Some 0,
                                  st_max_iterations = Some 3\<rparr>] ''loop_1'' 0 3 =
     ([''loop_1'' \<mapsto> \<lparr>st_current_index = Some 2, st_start_index = Some 0,
                       st_max_iterations = Some 3\<rparr>], Inr (1, True, 2)) \<and>
   auto_iteration [''loop_1'' \<mapsto> \<lparr>st_current_index = Some 2, st_start_index = Some 0,
                                  st_max_iterations = Some 3\<rparr>] ''loop_1'' 0 3 =
     (Map.empty, Inr (2, False, 3))"
  by (simp add: LoopStart_execute_def LoopEnd_execute_def auto_iteration_def
      AutoLoopStart_execute_def AutoLoopEnd_execute_def get_loop_state_def set_loop_state_def
      clear_loop_state_def dict_get_def py_truediv_returns Let_def)

section \<open>The remaining count\<close>

text \<open>
  C4. For every loop signal, the remaining value of Loop Index, when it returns, is the
  remaining value of Loop Condition. For the signal that Loop Start returns advanced by
  \<open>k\<close> Loop End nodes, remaining is 0 exactly from \<open>k = max_iterations - 1\<close> on, which is
  the signal on which Loop End returns continue_loop false, one step before the first signal
  (\<open>k = max_iterations\<close>) on which Loop Condition returns should_continue false.
\<close>

theorem remaining_agrees:
  "(LoopIndex_execute s = Inr (ci, iter, tot, remn, prog) \<longrightarrow>
      remn = snd (snd (LoopCondition_execute s))) \<and>
   (let sk = advance k (snd (snd (snd (LoopStart_execute start_index max_iterations None))))
    in (snd (snd (LoopCondition_execute sk)) = 0 \<longleftrightarrow> max_iterations - 1 \<le> int k) \<and>
       (fst (LoopCondition_execute sk) \<longleftrightarrow> int k < max_iterations) \<and>
       (snd (snd (LoopEnd_execute sk p)) \<longleftrightarrow> int k + 1 < max_iterations))"
proof -
  have a: "LoopIndex_execute s = Inr (ci, iter, tot, remn, prog) \<longrightarrow>
      remn = snd (snd (LoopCondition_execute s))"
    by (auto simp: LoopIndex_execute_def LoopCondition_execute_def Let_def
        split: sum.splits if_splits)
  have b: "advance k (snd (snd (snd (LoopStart_execute start_index max_iterations None)))) =
     \<lparr>sig_loop_id = None, sig_current_index = Some (start_index + int k),
      sig_start_index = Some start_index, sig_max_iterations = Some max_iterations,
      sig_is_active = Some (if k = 0 then start_index < start_index + max_iterations
                            else start_index + int k < start_index + max_iterations)\<rparr>"
    by (simp add: LoopStart_execute_def advance_complete)
  have c: "(snd (snd (LoopCondition_execute
              \<lparr>sig_loop_id = None, sig_current_index = Some (start_index + int k),
               sig_start_index = Some start_index, sig_max_iterations = Some max_iterations,
               sig_is_active = Some act\<rparr>)) = 0 \<longleftrightarrow> max_iterations - 1 \<le> int k) \<and>
       (fst (LoopCondition_execute
              \<lparr>sig_loop_id = None, sig_current_index = Some (start_index + int k),
               sig_start_index = Some start_index, sig_max_iterations = Some max_iterations,
               sig_is_active = Some act\<rparr>) \<longleftrightarrow> int k < max_iterations) \<and>
       (snd (snd (LoopEnd_execute
              \<lparr>sig_loop_id = None, sig_current_index = Some (start_index + int k),
               sig_start_index = Some start_index, sig_max_iterations = Some max_iterations,
               sig_is_active = Some act\<rparr> p)) \<longleftrightarrow> int k + 1 < max_iterations)" for act
    by (auto simp: LoopCondition_execute_def LoopEnd_execute_def dict_get_def Let_def max_def)
  show ?thesis
    unfolding b Let_def using a c by blast
qed

text \<open>Loop Index returns on the signal with current_index 1 of a loop of 3 from 0.\<close>

theorem remaining_agrees_witness:
  "LoopIndex_execute \<lparr>sig_loop_id = None, sig_current_index = Some 1, sig_start_index = Some 0,
      sig_max_iterations = Some 3, sig_is_active = Some True\<rparr> =
     Inr (1, 1, 3, 1, 6004799503160661 / 9007199254740992) \<and>
   snd (snd (LoopCondition_execute \<lparr>sig_loop_id = None, sig_current_index = Some 1,
      sig_start_index = Some 0, sig_max_iterations = Some 3, sig_is_active = Some True\<rparr>)) = 1"
proof -
  have e: "LoopIndex_execute \<lparr>sig_loop_id = None, sig_current_index = Some 1,
      sig_start_index = Some 0, sig_max_iterations = Some 3, sig_is_active = Some True\<rparr> =
     Inr (1, 1, 3, 1, 6004799503160661 / 9007199254740992)"
    by code_simp
  show ?thesis
    using e remaining_agrees [of "\<lparr>sig_loop_id = None, sig_current_index = Some 1,
      sig_start_index = Some 0, sig_max_iterations = Some 3, sig_is_active = Some True\<rparr>"
      1 1 3 1 "6004799503160661 / 9007199254740992" 0 0 3 "()"]
    by simp
qed

section \<open>Auto Loop Start\<close>

lemma AutoLoopStart_state:
  "fst (AutoLoopStart_execute states loop_id start_index max_iterations reset) =
     (if states loop_id = None \<or> reset
      then states(loop_id \<mapsto> \<lparr>st_current_index = Some start_index,
                                st_start_index = Some start_index,
                                st_max_iterations = Some max_iterations\<rparr>)
      else states)"
  by (simp add: AutoLoopStart_execute_def get_loop_state_def set_loop_state_def Let_def
      split: option.splits)

lemma AutoLoopStart_Inr:
  assumes "AutoLoopStart_execute states loop_id start_index max_iterations reset =
     (states', Inr (ci, iter, remn, prog, is_last, signal))"
  shows "ci = (case states loop_id of
                 None \<Rightarrow> start_index
               | Some st \<Rightarrow> if reset then start_index
                            else dict_get (st_current_index st) start_index)"
    and "iter = ci - start_index"
    and "remn = max 0 (start_index + max_iterations - ci - 1)"
    and "is_last \<longleftrightarrow> ci \<ge> start_index + max_iterations - 1"
    and "signal = \<lparr>sig_loop_id = Some loop_id, sig_current_index = Some ci,
                   sig_start_index = Some start_index,
                   sig_max_iterations = Some max_iterations,
                   sig_is_active = Some (ci < start_index + max_iterations)\<rparr>"
    and "prog = (if max_iterations > 0
                 then double_nearest (of_int (iter + 1) / of_int max_iterations) else 1)"
  using assms
  by (auto simp: AutoLoopStart_execute_def get_loop_state_def Let_def
      dest!: py_truediv_Inr split: sum.splits if_splits option.splits)

lemma AutoLoopStart_returns:
  assumes "\<bar>(case states loop_id of
               None \<Rightarrow> start_index
             | Some st \<Rightarrow> if reset then start_index
                          else dict_get (st_current_index st) start_index)
            - start_index + 1\<bar> < 2 ^ 1023"
  shows "\<exists>out. snd (AutoLoopStart_execute states loop_id start_index max_iterations reset) =
           Inr out"
  using assms
  by (auto simp: AutoLoopStart_execute_def get_loop_state_def Let_def py_truediv_returns
      split: option.splits)

lemma py_truediv_1_3: "py_truediv 1 3 = Inr (6004799503160661 / 18014398509481984)"
  by code_simp

lemma py_truediv_2_3: "py_truediv 2 3 = Inr (6004799503160661 / 9007199254740992)"
  by code_simp

lemma py_truediv_3_3: "py_truediv 3 3 = Inr 1"
  by code_simp

text \<open>
  C10. Whenever Auto Loop Start returns, for every loop identifier, start_index,
  max_iterations, reset flag and state dictionary, its is_last output is true if and only if
  its remaining output is 0.
\<close>

theorem is_last_iff_no_remaining:
  assumes "AutoLoopStart_execute states loop_id start_index max_iterations reset =
     (states', Inr (ci, iter, remn, prog, is_last, signal))"
  shows "is_last \<longleftrightarrow> remn = 0"
  using AutoLoopStart_Inr(3,4) [OF assms] by (auto simp: max_def)

text \<open>Auto Loop Start returns at the last iteration of a loop of 3 from 0.\<close>

theorem is_last_iff_no_remaining_witness:
  "AutoLoopStart_execute
     [''loop_1'' \<mapsto> \<lparr>st_current_index = Some 2, st_start_index = Some 0,
                       st_max_iterations = Some 3\<rparr>] ''loop_1'' 0 3 False =
     ([''loop_1'' \<mapsto> \<lparr>st_current_index = Some 2, st_start_index = Some 0,
                       st_max_iterations = Some 3\<rparr>],
      Inr (2, 2, 0, 1, True,
           \<lparr>sig_loop_id = Some ''loop_1'', sig_current_index = Some 2,
            sig_start_index = Some 0, sig_max_iterations = Some 3,
            sig_is_active = Some True\<rparr>)) \<and>
   (True \<longleftrightarrow> (0::int) = 0)"
proof -
  have e: "AutoLoopStart_execute
     [''loop_1'' \<mapsto> \<lparr>st_current_index = Some 2, st_start_index = Some 0,
                       st_max_iterations = Some 3\<rparr>] ''loop_1'' 0 3 False =
     ([''loop_1'' \<mapsto> \<lparr>st_current_index = Some 2, st_start_index = Some 0,
                       st_max_iterations = Some 3\<rparr>],
      Inr (2, 2, 0, 1, True,
           \<lparr>sig_loop_id = Some ''loop_1'', sig_current_index = Some 2,
            sig_start_index = Some 0, sig_max_iterations = Some 3,
            sig_is_active = Some True\<rparr>))"
    by (simp add: AutoLoopStart_execute_def get_loop_state_def dict_get_def Let_def
        py_truediv_3_3)
  from is_last_iff_no_remaining [OF e] e show ?thesis by simp
qed

lemma clear_loop_state_Some: "clear_loop_state states (Some l) = states(l := None)"
  by (auto simp: clear_loop_state_def split: option.splits)

lemma py_truediv_m4_1: "py_truediv (- 4) 1 = Inr (- 4)"
  by code_simp

section \<open>The index that Start returns\<close>

text \<open>
  C3, as stated, fails: Start does not clamp. Loop Start with start_index 5 fed a signal
  whose current_index is 0 returns current_index 0, and Auto Loop Start with start_index 5
  on a persisted state whose current_index is 0 returns current_index 0.
\<close>

theorem Start_below_start_index:
  "\<not> 5 \<le> fst (LoopStart_execute 5 1
       (Some \<lparr>sig_loop_id = None, sig_current_index = Some 0, sig_start_index = Some 0,
              sig_max_iterations = Some 3, sig_is_active = Some True\<rparr>)) \<and>
   snd (AutoLoopStart_execute
       [''loop_1'' \<mapsto> \<lparr>st_current_index = Some 0, st_start_index = Some 0,
                         st_max_iterations = Some 3\<rparr>] ''loop_1'' 5 1 False) =
     Inr (0, - 5, 5, - 4, False,
          \<lparr>sig_loop_id = Some ''loop_1'', sig_current_index = Some 0,
           sig_start_index = Some 5, sig_max_iterations = Some 1,
           sig_is_active = Some True\<rparr>)"
  by (simp add: LoopStart_execute_def AutoLoopStart_execute_def get_loop_state_def
      dict_get_def Let_def py_truediv_m4_1)

text \<open>
  C3, amended. Loop Start returns the current_index of the prior signal when a prior signal
  with that field is given, and start_index otherwise; Auto Loop Start, when it returns,
  returns the current_index of the persisted state when a state with that field exists and
  no reset is requested, and start_index otherwise. The returned current_index is at least
  start_index exactly when the prior current_index that is used, if any, is at least
  start_index.
\<close>

theorem Start_current_index:
  "fst (LoopStart_execute start_index max_iterations prior) =
     (case prior of
        None \<Rightarrow> start_index
      | Some s \<Rightarrow> (case sig_current_index s of None \<Rightarrow> start_index | Some c \<Rightarrow> c)) \<and>
   (start_index \<le> fst (LoopStart_execute start_index max_iterations prior) \<longleftrightarrow>
     (case prior of
        None \<Rightarrow> True
      | Some s \<Rightarrow> (case sig_current_index s of None \<Rightarrow> True | Some c \<Rightarrow> start_index \<le> c))) \<and>
   (AutoLoopStart_execute states loop_id start_index max_iterations reset =
      (states', Inr (ci, iter, remn, prog, is_last, signal)) \<longrightarrow>
    ci = (case states loop_id of
            None \<Rightarrow> start_index
          | Some st \<Rightarrow>
              if reset then start_index
              else (case st_current_index st of None \<Rightarrow> start_index | Some c \<Rightarrow> c)) \<and>
    (start_index \<le> ci \<longleftrightarrow>
      (case states loop_id of
         None \<Rightarrow> True
       | Some st \<Rightarrow>
           reset \<or> (case st_current_index st of None \<Rightarrow> True | Some c \<Rightarrow> start_index \<le> c))))"
proof -
  have a: "fst (LoopStart_execute start_index max_iterations prior) =
     (case prior of
        None \<Rightarrow> start_index
      | Some s \<Rightarrow> (case sig_current_index s of None \<Rightarrow> start_index | Some c \<Rightarrow> c))"
    by (simp add: LoopStart_execute_def dict_get_def Let_def split: option.splits)
  have b: "ci = (case states loop_id of
            None \<Rightarrow> start_index
          | Some st \<Rightarrow>
              if reset then start_index
              else (case st_current_index st of None \<Rightarrow> start_index | Some c \<Rightarrow> c))"
    if "AutoLoopStart_execute states loop_id start_index max_iterations reset =
      (states', Inr (ci, iter, remn, prog, is_last, signal))"
    using AutoLoopStart_Inr(1) [OF that] by (simp add: dict_get_def split: option.splits)
  show ?thesis
    unfolding a using b by (auto split: option.splits if_splits)
qed

text \<open>Auto Loop Start returns on a persisted state with current_index 1.\<close>

theorem Start_current_index_witness:
  "AutoLoopStart_execute
     [''loop_1'' \<mapsto> \<lparr>st_current_index = Some 1, st_start_index = Some 0,
                       st_max_iterations = Some 3\<rparr>] ''loop_1'' 0 3 False =
     ([''loop_1'' \<mapsto> \<lparr>st_current_index = Some 1, st_start_index = Some 0,
                       st_max_iterations = Some 3\<rparr>],
      Inr (1, 1, 1, 6004799503160661 / 9007199254740992, False,
           \<lparr>sig_loop_id = Some ''loop_1'', sig_current_index = Some 1,
            sig_start_index = Some 0, sig_max_iterations = Some 3,
            sig_is_active = Some True\<rparr>)) \<and>
   (0::int) \<le> 1"
proof -
  let ?states = "[''loop_1'' \<mapsto> \<lparr>st_current_index = Some 1, st_start_index = Some 0,
                       st_max_iterations = Some 3\<rparr>]"
  let ?signal = "\<lparr>sig_loop_id = Some ''loop_1'', sig_current_index = Some 1,
            sig_start_index = Some 0, sig_max_iterations = Some 3,
            sig_is_active = Some True\<rparr>"
  have e: "AutoLoopStart_execute ?states ''loop_1'' 0 3 False =
     (?states, Inr (1, 1, 1, 6004799503160661 / 9007199254740992, False, ?signal))"
    by (simp add: AutoLoopStart_execute_def get_loop_state_def dict_get_def Let_def
        py_truediv_2_3)
  from Start_current_index [of 0 3 None ?states "''loop_1''" False ?states 1 1 1
      "6004799503160661 / 9007199254740992" False ?signal] e
  show ?thesis by simp
qed

section \<open>Loop Break\<close>

text \<open>
  C5, as stated, fails: a signal without a loop_id is read with the identifier
  \<open>default\<close>, so Loop Break with a true condition on the signal of Loop Start deletes the
  slot \<open>default\<close> of the state dictionary.
\<close>

theorem Break_purges_default_slot:
  "fst (LoopBreak_execute
         [''default'' \<mapsto> \<lparr>st_current_index = Some 1, st_start_index = Some 0,
                           st_max_iterations = Some 3\<rparr>]
         (snd (snd (snd (LoopStart_execute 0 3 None)))) True ()) \<noteq>
   [''default'' \<mapsto> \<lparr>st_current_index = Some 1, st_start_index = Some 0,
                     st_max_iterations = Some 3\<rparr>]"
proof
  assume "fst (LoopBreak_execute
         [''default'' \<mapsto> \<lparr>st_current_index = Some 1, st_start_index = Some 0,
                           st_max_iterations = Some 3\<rparr>]
         (snd (snd (snd (LoopStart_execute 0 3 None)))) True ()) =
   [''default'' \<mapsto> \<lparr>st_current_index = Some 1, st_start_index = Some 0,
                     st_max_iterations = Some 3\<rparr>]"
  then have "fst (LoopBreak_execute
         [''default'' \<mapsto> \<lparr>st_current_index = Some 1, st_start_index = Some 0,
                           st_max_iterations = Some 3\<rparr>]
         (snd (snd (snd (LoopStart_execute 0 3 None)))) True ()) ''default'' =
   [''default'' \<mapsto> \<lparr>st_current_index = Some 1, st_start_index = Some 0,
                     st_max_iterations = Some 3\<rparr>] ''default''"
    by (rule fun_cong)
  then show False
    by (simp add: LoopBreak_execute_def LoopStart_execute_def clear_loop_state_Some
        dict_get_def Let_def)
qed

text \<open>
  C5, amended. Loop Break returns its passthrough and did_break equal to break_condition.
  When break_condition is true it deletes the slot of the signal's loop_id, or the slot
  \<open>default\<close> when the signal has no loop_id, and no other slot; when break_condition is
  false the state dictionary is unchanged. For a signal without a loop_id the dictionary is
  unchanged exactly when break_condition is false or there is no slot \<open>default\<close>.
\<close>

theorem Break_purges_slot:
  "LoopBreak_execute states s break_condition p =
     ((if break_condition
       then states((case sig_loop_id s of None \<Rightarrow> ''default'' | Some l \<Rightarrow> l) := None)
       else states), (p, break_condition)) \<and>
   (sig_loop_id s = None \<longrightarrow>
     (fst (LoopBreak_execute states s break_condition p) = states \<longleftrightarrow>
        \<not> break_condition \<or> states ''default'' = None))"
proof -
  have a: "LoopBreak_execute states s break_condition p =
     ((if break_condition
       then states((case sig_loop_id s of None \<Rightarrow> ''default'' | Some l \<Rightarrow> l) := None)
       else states), (p, break_condition))"
    by (simp add: LoopBreak_execute_def clear_loop_state_Some dict_get_def Let_def)
  have b: "(states(''default'' := None) = states) \<longleftrightarrow> states ''default'' = None"
    by (metis fun_upd_same fun_upd_triv)
  show ?thesis unfolding a using b by simp
qed

text \<open>Loop Break on the signal of Loop Start and the empty dictionary.\<close>

theorem Break_purges_slot_witness:
  "sig_loop_id (snd (snd (snd (LoopStart_execute 0 3 None)))) = None \<and>
   fst (LoopBreak_execute Map.empty (snd (snd (snd (LoopStart_execute 0 3 None)))) True ()) =
     Map.empty"
proof -
  have h: "sig_loop_id (snd (snd (snd (LoopStart_execute 0 3 None)))) = None"
    by (simp add: LoopStart_execute_def)
  from Break_purges_slot [of Map.empty "snd (snd (snd (LoopStart_execute 0 3 None)))" True "()"]
    h show ?thesis by simp
qed

section \<open>Loop End keeps the bounds\<close>

text \<open>
  C6, as stated, fails in its last clause: Loop End builds a signal of exactly four fields,
  so the loop_id of a signal returned by Auto Loop Start is changed too (it is dropped).
\<close>

theorem LoopEnd_drops_loop_id:
  "sig_loop_id (fst (LoopEnd_execute
      \<lparr>sig_loop_id = Some ''loop_1'', sig_current_index = Some 0, sig_start_index = Some 0,
       sig_max_iterations = Some 3, sig_is_active = Some True\<rparr> ())) \<noteq>
   sig_loop_id \<lparr>sig_loop_id = Some ''loop_1'', sig_current_index = Some 0,
       sig_start_index = Some 0, sig_max_iterations = Some 3, sig_is_active = Some True\<rparr>"
  by (simp add: LoopEnd_execute_def Let_def)

text \<open>
  C6, amended. For every input signal, the signal that Loop End returns is the input signal,
  absent bounds read with their defaults, with current_index advanced by one, is_active set
  to continue_loop and no loop_id. Its start_index and max_iterations are those read from
  the input, so end_index is the same before and after. The state that Auto Loop End
  persists when the loop continues has the same start_index and max_iterations, and the
  slot is absent when the loop does not continue.
\<close>

theorem advance_preserves_bounds:
  "LoopEnd_execute s p =
     ((with_defaults s)
        \<lparr>sig_loop_id := None,
         sig_current_index := Some (dict_get (sig_current_index s) 0 + 1),
         sig_is_active := Some (snd (snd (LoopEnd_execute s p)))\<rparr>,
      p,
      dict_get (sig_current_index s) 0 + 1
        < dict_get (sig_start_index s) 0 + dict_get (sig_max_iterations s) 1) \<and>
   sig_start_index (fst (LoopEnd_execute s p)) = Some (dict_get (sig_start_index s) 0) \<and>
   sig_max_iterations (fst (LoopEnd_execute s p)) = Some (dict_get (sig_max_iterations s) 1) \<and>
   dict_get (sig_start_index (fst (LoopEnd_execute s p))) 0
     + dict_get (sig_max_iterations (fst (LoopEnd_execute s p))) 1 =
   dict_get (sig_start_index s) 0 + dict_get (sig_max_iterations s) 1 \<and>
   fst (AutoLoopEnd_execute states s p) (dict_get (sig_loop_id s) ''default'') =
     (if fst (snd (snd (AutoLoopEnd_execute states s p)))
      then Some \<lparr>st_current_index = Some (dict_get (sig_current_index s) 0 + 1),
                 st_start_index = Some (dict_get (sig_start_index s) 0),
                 st_max_iterations = Some (dict_get (sig_max_iterations s) 1)\<rparr>
      else None)"
  by (simp add: LoopEnd_execute_def AutoLoopEnd_execute_def with_defaults_def
      set_loop_state_def clear_loop_state_Some dict_get_def Let_def split: option.splits)

section \<open>Loop Index\<close>

lemma py_truediv_4_3: "py_truediv 4 3 = Inr (6004799503160661 / 4503599627370496)"
  by code_simp

lemma py_truediv_3_1: "py_truediv 3 1 = Inr 3"
  by code_simp

lemma LoopIndex_Inr:
  assumes "LoopIndex_execute s = Inr (ci, iter, tot, remn, prog)"
  shows "ci = dict_get (sig_current_index s) 0"
    and "iter = ci - dict_get (sig_start_index s) 0"
    and "tot = dict_get (sig_max_iterations s) 1"
    and "remn = max 0 (tot - iter - 1)"
    and "prog = (if tot > 0 then double_nearest (of_int (iter + 1) / of_int tot) else 1)"
  using assms
  by (auto simp: LoopIndex_execute_def Let_def dest!: py_truediv_Inr
      split: sum.splits if_splits)

lemma LoopIndex_returns:
  assumes "\<bar>dict_get (sig_current_index s) 0 - dict_get (sig_start_index s) 0 + 1\<bar> < 2 ^ 1023"
  shows "\<exists>out. LoopIndex_execute s = Inr out"
  using assms by (simp add: LoopIndex_execute_def Let_def py_truediv_returns)

lemma LoopIndex_no_ZeroDivisionError: "LoopIndex_execute s \<noteq> Inl ZeroDivisionError"
  by (auto simp: LoopIndex_execute_def Let_def py_truediv_def double_of_rat_def
      split: sum.splits if_splits)

lemma AutoLoopStart_agrees_LoopIndex:
  assumes "AutoLoopStart_execute states loop_id start_index max_iterations reset =
     (states', Inr (ci, iter, remn, prog, is_last, signal))"
  shows "LoopIndex_execute signal = Inr (ci, iter, max_iterations, remn, prog)"
  using assms
  by (auto simp: AutoLoopStart_execute_def LoopIndex_execute_def get_loop_state_def
      dict_get_def Let_def split: sum.splits if_splits option.splits)

text \<open>
  C7. For every signal with max_iterations at least 1, the progress that Loop Index returns
  on the signal is at most the progress it returns on the signal advanced by Loop End, both
  as binary64 values, and the progress is exactly 1.0 at the final iteration, where
  current_index is start_index + max_iterations - 1.
\<close>

theorem progress_monotone:
  assumes "1 \<le> dict_get (sig_max_iterations s) 1"
    and "LoopIndex_execute s = Inr (c1, i1, t1, r1, prog1)"
    and "LoopIndex_execute (fst (LoopEnd_execute s p)) = Inr (c2, i2, t2, r2, prog2)"
  shows "prog1 \<le> prog2 \<and>
    (dict_get (sig_current_index s) 0 =
       dict_get (sig_start_index s) 0 + dict_get (sig_max_iterations s) 1 - 1 \<longrightarrow> prog1 = 1)"
proof -
  define c a m where "c = dict_get (sig_current_index s) 0"
    and "a = dict_get (sig_start_index s) 0" and "m = dict_get (sig_max_iterations s) 1"
  have m: "0 < m" using assms(1) by (simp add: m_def)
  have p1: "prog1 = double_nearest (of_int (c - a + 1) / of_int m)"
    using LoopIndex_Inr [OF assms(2)] m by (simp add: c_def a_def m_def)
  have e: "dict_get (sig_current_index (fst (LoopEnd_execute s p))) 0 = c + 1"
    "dict_get (sig_start_index (fst (LoopEnd_execute s p))) 0 = a"
    "dict_get (sig_max_iterations (fst (LoopEnd_execute s p))) 1 = m"
    by (simp_all add: LoopEnd_execute_def Let_def c_def a_def m_def dict_get_def)
  have p2: "prog2 = double_nearest (of_int (c + 1 - a + 1) / of_int m)"
    using LoopIndex_Inr [OF assms(3)] m by (simp add: e)
  have "(of_int (c - a + 1) :: rat) / of_int m \<le> of_int (c + 1 - a + 1) / of_int m"
    using m by (intro divide_right_mono) simp_all
  then have mono: "prog1 \<le> prog2" unfolding p1 p2 by (rule double_nearest_mono)
  have "prog1 = 1" if "c = a + m - 1"
  proof -
    have "(of_int (c - a + 1) :: rat) / of_int m = 1" using that m by simp
    then show ?thesis by (simp add: p1 double_nearest_one)
  qed
  with mono show ?thesis by (simp add: c_def a_def m_def)
qed

text \<open>
  Loop Index on a loop of 3 from 0: progress at current_index 1, at the final iteration 2 and
  one step beyond.
\<close>

theorem progress_monotone_witness:
  "LoopIndex_execute \<lparr>sig_loop_id = None, sig_current_index = Some 1, sig_start_index = Some 0,
      sig_max_iterations = Some 3, sig_is_active = Some True\<rparr> =
     Inr (1, 1, 3, 1, 6004799503160661 / 9007199254740992) \<and>
   LoopIndex_execute \<lparr>sig_loop_id = None, sig_current_index = Some 2, sig_start_index = Some 0,
      sig_max_iterations = Some 3, sig_is_active = Some True\<rparr> = Inr (2, 2, 3, 0, 1) \<and>
   (6004799503160661 / 9007199254740992 :: rat) \<le> 1 \<and>
   (1::rat) \<le> 6004799503160661 / 4503599627370496"
proof -
  let ?s1 = "\<lparr>sig_loop_id = None, sig_current_index = Some 1, sig_start_index = Some 0,
      sig_max_iterations = Some 3, sig_is_active = Some True\<rparr>"
  let ?s2 = "\<lparr>sig_loop_id = None, sig_current_index = Some 2, sig_start_index = Some 0,
      sig_max_iterations = Some 3, sig_is_active = Some True\<rparr>"
  let ?s3 = "\<lparr>sig_loop_id = None, sig_current_index = Some 3, sig_start_index = Some 0,
      sig_max_iterations = Some 3, sig_is_active = Some False\<rparr>"
  have m: "1 \<le> dict_get (sig_max_iterations ?s1) 1" "1 \<le> dict_get (sig_max_iterations ?s2) 1"
    by (simp_all add: dict_get_def)
  have i1: "LoopIndex_execute ?s1 = Inr (1, 1, 3, 1, 6004799503160661 / 9007199254740992)"
    by (simp add: LoopIndex_execute_def dict_get_def Let_def py_truediv_2_3)
  have i2: "LoopIndex_execute ?s2 = Inr (2, 2, 3, 0, 1)"
    by (simp add: LoopIndex_execute_def dict_get_def Let_def py_truediv_3_3)
  have i3: "LoopIndex_execute ?s3 = Inr (3, 3, 3, 0, 6004799503160661 / 4503599627370496)"
    by (simp add: LoopIndex_execute_def dict_get_def Let_def py_truediv_4_3)
  have e1: "fst (LoopEnd_execute ?s1 ()) = ?s2"
    by (simp add: LoopEnd_execute_def dict_get_def Let_def)
  have e2: "fst (LoopEnd_execute ?s2 ()) = ?s3"
    by (simp add: LoopEnd_execute_def dict_get_def Let_def)
  have a: "(6004799503160661 / 9007199254740992 :: rat) \<le> 1"
    using progress_monotone [OF m(1) i1, of "()"] i2 unfolding e1 by simp
  have b: "(1::rat) \<le> 6004799503160661 / 4503599627370496"
    using progress_monotone [OF m(2) i2, of "()"] i3 unfolding e2 by simp
  from i1 i2 a b show ?thesis by simp
qed

section \<open>Absent fields\<close>

text \<open>
  C8. For every loop signal, Loop End, Loop Condition, Loop Index and Auto Loop End return
  what they return on the signal in which an absent current_index or start_index is 0 and an
  absent max_iterations is 1. Loop End, Loop Condition and Auto Loop End only read, add,
  compare and store integers and raise nothing; Loop Index never divides by zero and returns
  whenever the iteration number is within the range of a float, which the host's bound of
  10000 on its integer inputs implies.
\<close>

theorem missing_fields_default:
  "LoopEnd_execute s p = LoopEnd_execute (with_defaults s) p \<and>
   LoopCondition_execute s = LoopCondition_execute (with_defaults s) \<and>
   LoopIndex_execute s = LoopIndex_execute (with_defaults s) \<and>
   AutoLoopEnd_execute states s p = AutoLoopEnd_execute states (with_defaults s) p \<and>
   LoopIndex_execute s \<noteq> Inl ZeroDivisionError \<and>
   (\<bar>dict_get (sig_current_index s) 0 - dict_get (sig_start_index s) 0 + 1\<bar> < 2 ^ 1023 \<longrightarrow>
      (\<exists>out. LoopIndex_execute s = Inr out))"
proof -
  have d: "dict_get (sig_current_index (with_defaults s)) 0 = dict_get (sig_current_index s) 0"
    "dict_get (sig_start_index (with_defaults s)) 0 = dict_get (sig_start_index s) 0"
    "dict_get (sig_max_iterations (with_defaults s)) 1 = dict_get (sig_max_iterations s) 1"
    "sig_loop_id (with_defaults s) = sig_loop_id s"
    by (simp_all add: with_defaults_def dict_get_def)
  have "LoopEnd_execute s p = LoopEnd_execute (with_defaults s) p"
    by (simp add: LoopEnd_execute_def d)
  moreover have "LoopCondition_execute s = LoopCondition_execute (with_defaults s)"
    by (simp add: LoopCondition_execute_def d)
  moreover have "LoopIndex_execute s = LoopIndex_execute (with_defaults s)"
    by (simp add: LoopIndex_execute_def d)
  moreover have "AutoLoopEnd_execute states s p = AutoLoopEnd_execute states (with_defaults s) p"
    by (simp add: AutoLoopEnd_execute_def d)
  ultimately show ?thesis
    using LoopIndex_no_ZeroDivisionError [of s] LoopIndex_returns [of s] by blast
qed

text \<open>Loop Index on a signal that has only current_index.\<close>

theorem missing_fields_default_witness:
  "\<bar>dict_get (sig_current_index \<lparr>sig_loop_id = None, sig_current_index = Some 2,
        sig_start_index = None, sig_max_iterations = None, sig_is_active = None\<rparr>) 0
    - dict_get (sig_start_index \<lparr>sig_loop_id = None, sig_current_index = Some 2,
        sig_start_index = None, sig_max_iterations = None, sig_is_active = None\<rparr>) 0 + 1\<bar>
     < (2::int) ^ 1023 \<and>
   LoopIndex_execute \<lparr>sig_loop_id = None, sig_current_index = Some 2,
        sig_start_index = None, sig_max_iterations = None, sig_is_active = None\<rparr> =
     Inr (2, 2, 1, 0, 3) \<and>
   LoopIndex_execute \<lparr>sig_loop_id = None, sig_current_index = Some 2,
        sig_start_index = Some 0, sig_max_iterations = Some 1, sig_is_active = None\<rparr> =
     Inr (2, 2, 1, 0, 3)"
proof -
  let ?s = "\<lparr>sig_loop_id = None, sig_current_index = Some 2,
        sig_start_index = None, sig_max_iterations = None, sig_is_active = None\<rparr>"
  have h: "\<bar>dict_get (sig_current_index ?s) 0 - dict_get (sig_start_index ?s) 0 + 1\<bar>
     < (2::int) ^ 1023"
    by (simp add: dict_get_def)
  have i: "LoopIndex_execute ?s = Inr (2, 2, 1, 0, 3)"
    by (simp add: LoopIndex_execute_def dict_get_def Let_def py_truediv_3_1)
  have w: "with_defaults ?s = \<lparr>sig_loop_id = None, sig_current_index = Some 2,
        sig_start_index = Some 0, sig_max_iterations = Some 1, sig_is_active = None\<rparr>"
    by (simp add: with_defaults_def)
  from missing_fields_default [of ?s "()" Map.empty] h i w show ?thesis by simp
qed

section \<open>The round trip through the persisted state\<close>

lemma AutoLoopEnd_state:
  "fst (AutoLoopEnd_execute states s p) =
     (if fst (snd (snd (AutoLoopEnd_execute states s p)))
      then states(dict_get (sig_loop_id s) ''default'' \<mapsto>
             \<lparr>st_current_index = Some (snd (snd (snd (AutoLoopEnd_execute states s p)))),
              st_start_index = Some (dict_get (sig_start_index s) 0),
              st_max_iterations = Some (dict_get (sig_max_iterations s) 1)\<rparr>)
      else states(dict_get (sig_loop_id s) ''default'' := None))"
  by (simp add: AutoLoopEnd_execute_def set_loop_state_def clear_loop_state_Some Let_def)

text \<open>
  C1. Auto Loop Start stores a fresh record with current_index = start_index, start_index
  and max_iterations exactly when the loop identifier has no slot or reset is true, and
  otherwise leaves the state dictionary as it is. Whenever it returns: with no slot or with
  reset it returns current_index = start_index; with a slot and no reset it returns the
  persisted current_index; and when the dictionary is the one that Auto Loop End left after
  persisting a state for that identifier (should_continue true), with no reset, it returns
  the next_index that Auto Loop End persisted and changes nothing.
\<close>

theorem auto_round_trip:
  "fst (AutoLoopStart_execute states loop_id start_index max_iterations reset) =
     (if states loop_id = None \<or> reset
      then states(loop_id \<mapsto> \<lparr>st_current_index = Some start_index,
                                st_start_index = Some start_index,
                                st_max_iterations = Some max_iterations\<rparr>)
      else states) \<and>
   (AutoLoopStart_execute states loop_id start_index max_iterations reset =
      (states', Inr (ci, iter, remn, prog, is_last, signal)) \<longrightarrow>
    (states loop_id = None \<or> reset \<longrightarrow> ci = start_index) \<and>
    (states loop_id = Some st \<and> \<not> reset \<longrightarrow>
       ci = (case st_current_index st of None \<Rightarrow> start_index | Some c \<Rightarrow> c)) \<and>
    (AutoLoopEnd_execute states0 signal0 p = (states, (p', True, next_index)) \<and>
     (case sig_loop_id signal0 of None \<Rightarrow> ''default'' | Some l \<Rightarrow> l) = loop_id \<and> \<not> reset \<longrightarrow>
       ci = next_index \<and> states' = states))"
proof -
  have c: "ci = (case states loop_id of
                 None \<Rightarrow> start_index
               | Some st \<Rightarrow> if reset then start_index
                            else dict_get (st_current_index st) start_index)"
      and s: "states' = (if states loop_id = None \<or> reset
      then states(loop_id \<mapsto> \<lparr>st_current_index = Some start_index,
                                st_start_index = Some start_index,
                                st_max_iterations = Some max_iterations\<rparr>)
      else states)"
    if "AutoLoopStart_execute states loop_id start_index max_iterations reset =
      (states', Inr (ci, iter, remn, prog, is_last, signal))"
    using AutoLoopStart_Inr(1) [OF that] AutoLoopStart_state [of states loop_id start_index
        max_iterations reset] that by simp_all
  have e: "states loop_id = Some \<lparr>st_current_index = Some next_index,
              st_start_index = Some (dict_get (sig_start_index signal0) 0),
              st_max_iterations = Some (dict_get (sig_max_iterations signal0) 1)\<rparr>"
    if "AutoLoopEnd_execute states0 signal0 p = (states, (p', True, next_index))"
      and "(case sig_loop_id signal0 of None \<Rightarrow> ''default'' | Some l \<Rightarrow> l) = loop_id"
    using AutoLoopEnd_state [of states0 signal0 p] that by (auto simp: dict_get_def)
  show ?thesis
    using c s e AutoLoopStart_state [of states loop_id start_index max_iterations reset]
    by (auto simp: dict_get_def split: option.splits)
qed

text \<open>
  Auto Loop End persists index 1 for \<open>loop_1\<close> and Auto Loop Start returns it; on the
  empty dictionary Auto Loop Start returns start_index 0 and stores the fresh record.
\<close>

theorem auto_round_trip_witness:
  "AutoLoopEnd_execute
     [''loop_1'' \<mapsto> \<lparr>st_current_index = Some 0, st_start_index = Some 0,
                       st_max_iterations = Some 3\<rparr>]
     \<lparr>sig_loop_id = Some ''loop_1'', sig_current_index = Some 0, sig_start_index = Some 0,
      sig_max_iterations = Some 3, sig_is_active = Some True\<rparr> () =
     ([''loop_1'' \<mapsto> \<lparr>st_current_index = Some 1, st_start_index = Some 0,
                       st_max_iterations = Some 3\<rparr>], ((), True, 1)) \<and>
   AutoLoopStart_execute
     [''loop_1'' \<mapsto> \<lparr>st_current_index = Some 1, st_start_index = Some 0,
                       st_max_iterations = Some 3\<rparr>] ''loop_1'' 0 3 False =
     ([''loop_1'' \<mapsto> \<lparr>st_current_index = Some 1, st_start_index = Some 0,
                       st_max_iterations = Some 3\<rparr>],
      Inr (1, 1, 1, 6004799503160661 / 9007199254740992, False,
           \<lparr>sig_loop_id = Some ''loop_1'', sig_current_index = Some 1,
            sig_start_index = Some 0, sig_max_iterations = Some 3,
            sig_is_active = Some True\<rparr>)) \<and>
   AutoLoopStart_execute Map.empty ''loop_1'' 0 3 False =
     ([''loop_1'' \<mapsto> \<lparr>st_current_index = Some 0, st_start_index = Some 0,
                       st_max_iterations = Some 3\<rparr>],
      Inr (0, 0, 2, 6004799503160661 / 18014398509481984, False,
           \<lparr>sig_loop_id = Some ''loop_1'', sig_current_index = Some 0,
            sig_start_index = Some 0, sig_max_iterations = Some 3,
            sig_is_active = Some True\<rparr>))"
proof -
  let ?st0 = "[''loop_1'' \<mapsto> \<lparr>st_current_index = Some 0, st_start_index = Some 0,
                       st_max_iterations = Some 3\<rparr>]"
  let ?st1 = "[''loop_1'' \<mapsto> \<lparr>st_current_index = Some 1, st_start_index = Some 0,
                       st_max_iterations = Some 3\<rparr>]"
  let ?sig0 = "\<lparr>sig_loop_id = Some ''loop_1'', sig_current_index = Some 0,
      sig_start_index = Some 0, sig_max_iterations = Some 3, sig_is_active = Some True\<rparr>"
  let ?sig1 = "\<lparr>sig_loop_id = Some ''loop_1'', sig_current_index = Some 1,
      sig_start_index = Some 0, sig_max_iterations = Some 3, sig_is_active = Some True\<rparr>"
  have en: "AutoLoopEnd_execute ?st0 ?sig0 () = (?st1, ((), True, 1))"
    by (simp add: AutoLoopEnd_execute_def set_loop_state_def dict_get_def Let_def)
  have s1: "AutoLoopStart_execute ?st1 ''loop_1'' 0 3 False =
     (?st1, Inr (1, 1, 1, 6004799503160661 / 9007199254740992, False, ?sig1))"
    by (simp add: AutoLoopStart_execute_def get_loop_state_def dict_get_def Let_def
        py_truediv_2_3)
  have s0: "AutoLoopStart_execute Map.empty ''loop_1'' 0 3 False =
     (?st0, Inr (0, 0, 2, 6004799503160661 / 18014398509481984, False, ?sig0))"
    by (simp add: AutoLoopStart_execute_def get_loop_state_def set_loop_state_def
        dict_get_def Let_def py_truediv_1_3)
  have k: "(case sig_loop_id ?sig0 of None \<Rightarrow> ''default'' | Some l \<Rightarrow> l) = ''loop_1''"
    by simp
  have a: "(1::int) = 1 \<and> ?st1 = ?st1"
    using auto_round_trip [of ?st1 "''loop_1''" 0 3 False ?st1 1 1 1
        "6004799503160661 / 9007199254740992" False ?sig1
        "\<lparr>st_current_index = Some 1, st_start_index = Some 0, st_max_iterations = Some 3\<rparr>"
        ?st0 ?sig0 "()" "()" 1] s1 en k
    by simp
  have b: "(0::int) = 0"
    using auto_round_trip [of Map.empty "''loop_1''" 0 3 False ?st0 0 0 2
        "6004799503160661 / 18014398509481984" False ?sig0] s0
    by simp
  from en s1 s0 a b show ?thesis by simp
qed

end
